theory Spec2Isabelle
  imports Main
begin

section \<open>Data model\<close>

text \<open>
  What a cell of a table can hold after a Python string or integer was bound to it: an
  \<open>INTEGER\<close>, a \<open>REAL\<close> or a \<open>TEXT\<close>. The type \<open>'r\<close> stands for the
  double-precision numbers of SQLite.
\<close>

datatype 'r sql_value = SqlInteger int | SqlReal 'r | SqlText string

text \<open>
  The three tables of \<open>init_db\<close>. A row is a record of its columns; a table is
  the list of its rows in insertion order. A \<open>TEXT\<close> column keeps the string bound to
  it, so \<open>title\<close>, \<open>story\<close>, \<open>text\<close> and the user columns are strings, and
  \<open>photo_url\<close> is a string or \<open>None\<close> (SQL NULL). The \<open>INTEGER\<close> columns hold
  the ids. \<open>latitude\<close> and \<open>longitude\<close> are declared \<open>REAL\<close> and \<open>date\<close>
  is declared \<open>DATE\<close>: these columns re-type a string that reads as a number, so their
  cells are \<open>sql_value\<close>s.
\<close>

record user_row =
  usr_id :: int
  usr_username :: string
  usr_password_hash :: string

record 'r memory_row =
  mem_id :: int
  mem_title :: string
  mem_story :: string
  mem_latitude :: "'r sql_value"
  mem_longitude :: "'r sql_value"
  mem_photo_url :: "string option"
  mem_date :: "'r sql_value"
  mem_user_id :: int

record appreciation_row =
  app_id :: int
  app_text :: string
  app_author_id :: int
  app_recipient_id :: int

text \<open>
  The persistent state: the tables, the counter that \<open>AUTOINCREMENT\<close> keeps for
  each of the two tables that use it (the largest id ever given out), and the files
  below the upload folder, as a map from path to content.
\<close>

record 'r store =
  user_tbl :: "user_row list"
  memory_tbl :: "'r memory_row list"
  memory_seq :: int
  appreciation_tbl :: "appreciation_row list"
  appreciation_seq :: int
  uploads :: "string \<rightharpoonup> string"

text \<open>
  \<open>class User(UserMixin)\<close>: the object behind \<open>current_user\<close>. It is built by
  \<open>load_user\<close> from a user row, so its id is an id of the user table.
\<close>

record user =
  cur_id :: int
  cur_username :: string

text \<open>
  The request: its method, \<open>request.form\<close> and \<open>request.files\<close>. An uploaded
  file carries the client's filename and its content.
\<close>

datatype http_method = GET | POST

record file_storage =
  fs_filename :: string
  fs_content :: string

record request =
  req_method :: http_method
  req_form :: "string \<rightharpoonup> string"
  req_files :: "string \<rightharpoonup> file_storage"

text \<open>
  What a handler returns: \<open>redirect(url_for(endpoint))\<close> or a rendered template
  with the values passed to it.
\<close>

datatype 'r page =
    LoginPage "string option"
  | AddMemoryPage
  | EditMemoryPage "'r memory_row"
  | AppreciationPage "(int \<times> string \<times> string) list"
  | EditAppreciationPage appreciation_row

datatype 'r response = Redirect string | Render "'r page"

text \<open>
  The exceptions a handler can raise: \<open>request.form[k]\<close> on a missing key, an index
  out of range, an attribute read on \<open>None\<close>, and a Python integer that does not fit
  the 64 bits of an SQLite \<open>INTEGER\<close> when it is bound to a statement. A raised
  exception is \<open>Inl\<close>; every raise happens before the handler writes anything, so an
  \<open>Inl\<close> result leaves the state as it was.
\<close>

datatype error = BadRequestKeyError string | IndexError | AttributeError | OverflowError

definition bind_result :: "error + 'a \<Rightarrow> ('a \<Rightarrow> error + 'b) \<Rightarrow> error + 'b" where
  "bind_result r f = (case r of Inl e \<Rightarrow> Inl e | Inr v \<Rightarrow> f v)"

definition form_get :: "request \<Rightarrow> string \<Rightarrow> error + string" where
  "form_get req k =
     (case req_form req k of None \<Rightarrow> Inl (BadRequestKeyError k) | Some v \<Rightarrow> Inr v)"

section \<open>Upload helper\<close>

definition UPLOAD_FOLDER :: string where
  "UPLOAD_FOLDER = ''static/uploads''"

definition ALLOWED_EXTENSIONS :: "string set" where
  "ALLOWED_EXTENSIONS = {''png'', ''jpg'', ''jpeg'', ''gif''}"

text \<open>
  \<open>str.lower\<close> on the ASCII letters. A character outside ASCII is left alone here;
  what Python makes of such a character is never a letter of an allowed extension by
  itself, so membership in \<open>ALLOWED_EXTENSIONS\<close> is the same.
\<close>

definition lower_char :: "char \<Rightarrow> char" where
  "lower_char c =
     (let n = (of_char c :: nat) in if 65 \<le> n \<and> n \<le> 90 then char_of (n + 32) else c)"

definition lower :: "string \<Rightarrow> string" where
  "lower s = map lower_char s"

text \<open>
  \<open>s.rsplit(sep, 1)\<close> for a one-character separator: the string itself when the
  separator does not occur, else what stands before the last occurrence and what stands
  after it.
\<close>

definition rsplit1 :: "char \<Rightarrow> string \<Rightarrow> string list" where
  "rsplit1 sep s =
     (let tl_rev = takeWhile (\<lambda>c. c \<noteq> sep) (rev s) in
      if length tl_rev = length s then [s]
      else [rev (drop (Suc (length tl_rev)) (rev s)), rev tl_rev])"

text \<open>\<open>xs[i]\<close> for a non-negative index.\<close>

definition py_index :: "'a list \<Rightarrow> nat \<Rightarrow> error + 'a" where
  "py_index xs i = (if i < length xs then Inr (xs ! i) else Inl IndexError)"

definition allowed_file :: "string \<Rightarrow> error + bool" where
  "allowed_file filename =
     (if CHR ''.'' \<in> set filename
      then bind_result (py_index (rsplit1 CHR ''.'' filename) 1)
             (\<lambda>ext. Inr (lower ext \<in> ALLOWED_EXTENSIONS))
      else Inr False)"

text \<open>\<open>os.path.join\<close> of two components, with the POSIX separator.\<close>

definition os_path_join :: "string \<Rightarrow> string \<Rightarrow> string" where
  "os_path_join a b =
     (if b \<noteq> [] \<and> hd b = CHR ''/'' then b
      else if a = [] \<or> last a = CHR ''/'' then a @ b
      else a @ ''/'' @ b)"

text \<open>The truth value of a \<open>FileStorage\<close> is that of its filename.\<close>

definition file_truthy :: "file_storage \<Rightarrow> bool" where
  "file_truthy file = (fs_filename file \<noteq> [])"

text \<open>
  The block between \<open>FILE UPLOAD LOGIC\<close> and \<open>END FILE UPLOAD LOGIC\<close>, which
  \<open>add_memory\<close> and \<open>edit_memory\<close> both contain. It starts from the current
  \<open>photo_url\<close> and returns the new one with the state after \<open>file.save\<close>,
  which overwrites what the path held. Creating the folder and writing the file are
  taken to succeed. \<open>secure_filename\<close> belongs to Werkzeug and is a parameter.
\<close>

definition upload_logic ::
  "(string \<Rightarrow> string) \<Rightarrow> request \<Rightarrow> string option \<Rightarrow> 'r store
     \<Rightarrow> error + (string option \<times> 'r store)" where
  "upload_logic secure_filename req photo_url s =
     (case req_files req ''photo'' of
        None \<Rightarrow> Inr (photo_url, s)
      | Some file \<Rightarrow>
          if file_truthy file
          then bind_result (allowed_file (fs_filename file)) (\<lambda>ok.
                 if ok
                 then (let filename = secure_filename (fs_filename file);
                           filepath = os_path_join UPLOAD_FOLDER filename
                       in Inr (Some (os_path_join UPLOAD_FOLDER filename),
                               s\<lparr>uploads := (uploads s)(filepath \<mapsto> fs_content file)\<rparr>))
                 else Inr (photo_url, s))
          else Inr (photo_url, s))"

section \<open>What SQLite does with a bound value\<close>

text \<open>
  \<open>conn.execute(sql, params)\<close> binds each Python integer as a 64-bit \<open>INTEGER\<close>
  and raises \<open>OverflowError\<close> for one that does not fit. The ids in the URLs are
  Python integers of any size.
\<close>

definition in_int64 :: "int \<Rightarrow> bool" where
  "in_int64 i = (- (2 ^ 63) \<le> i \<and> i < 2 ^ 63)"

definition sqlite_bind_int :: "int \<Rightarrow> error + int" where
  "sqlite_bind_int i = (if in_int64 i then Inr i else Inl OverflowError)"

text \<open>
  A string stored in a \<open>REAL\<close> or \<open>DATE\<close> column is converted when it is a
  well-formed number: optional white space, an optional sign, digits with an optional
  point, an optional exponent with at least one digit, optional white space, and at least
  one digit before the exponent. Any other string is kept as \<open>TEXT\<close>.
\<close>

definition sqlite_isspace :: "char \<Rightarrow> bool" where
  "sqlite_isspace c = (c \<in> set [CHR '' '', CHR 0x09, CHR 0x0A, CHR 0x0B, CHR 0x0C, CHR 0x0D])"

definition sqlite_isdigit :: "char \<Rightarrow> bool" where
  "sqlite_isdigit c = (c \<in> set ''0123456789'')"

definition skip_sign :: "string \<Rightarrow> string" where
  "skip_sign z =
     (case z of [] \<Rightarrow> [] | c # r \<Rightarrow> if c = CHR ''-'' \<or> c = CHR ''+'' then r else z)"

definition numeric_text :: "string \<Rightarrow> bool" where
  "numeric_text t =
     (let z1 = skip_sign (dropWhile sqlite_isspace t);
          int_part = takeWhile sqlite_isdigit z1;
          z2 = dropWhile sqlite_isdigit z1;
          (frac_part, z3) =
            (case z2 of
               [] \<Rightarrow> ([], z2)
             | c # r \<Rightarrow> if c = CHR ''.''
                        then (takeWhile sqlite_isdigit r, dropWhile sqlite_isdigit r)
                        else ([], z2));
          (exp_valid, z4) =
            (case z3 of
               [] \<Rightarrow> (True, z3)
             | c # r \<Rightarrow> if c = CHR ''e'' \<or> c = CHR ''E''
                        then (takeWhile sqlite_isdigit (skip_sign r) \<noteq> [],
                              dropWhile sqlite_isdigit (skip_sign r))
                        else (True, z3))
      in dropWhile sqlite_isspace z4 = [] \<and> (int_part \<noteq> [] \<or> frac_part \<noteq> []) \<and> exp_valid)"

text \<open>
  The value of a string that is an integer literal (white space, sign, digits, white
  space), and \<open>None\<close> for any other string.
\<close>

definition digits_value :: "string \<Rightarrow> int" where
  "digits_value ds = fold (\<lambda>c n. 10 * n + (int (of_char c) - 48)) ds 0"

definition integer_text :: "string \<Rightarrow> int option" where
  "integer_text t =
     (let z0 = dropWhile sqlite_isspace t;
          z1 = skip_sign z0;
          digits = takeWhile sqlite_isdigit z1;
          rest = dropWhile sqlite_isspace (dropWhile sqlite_isdigit z1)
      in if rest = [] \<and> digits \<noteq> []
         then Some (if z0 \<noteq> [] \<and> hd z0 = CHR ''-'' then - digits_value digits
                    else digits_value digits)
         else None)"

text \<open>
  Which double a well-formed number is read as, and whether a double is a whole number
  that fits an \<open>INTEGER\<close>, is SQLite's floating-point arithmetic: both are parameters.
\<close>

record 'r sqlite_reals =
  text_to_real :: "string \<Rightarrow> 'r"
  real_as_integer :: "'r \<Rightarrow> int option"

text \<open>
  A \<open>REAL\<close> column stores a well-formed number as a \<open>REAL\<close>. A \<open>DATE\<close> column
  has the affinity \<open>NUMERIC\<close>: it stores an integer literal that fits 64 bits as that
  \<open>INTEGER\<close>, and any other well-formed number as the \<open>INTEGER\<close> equal to its double
  if there is one, else as the \<open>REAL\<close>.
\<close>

definition real_affinity :: "'r sqlite_reals \<Rightarrow> string \<Rightarrow> 'r sql_value" where
  "real_affinity db t = (if numeric_text t then SqlReal (text_to_real db t) else SqlText t)"

definition numeric_affinity :: "'r sqlite_reals \<Rightarrow> string \<Rightarrow> 'r sql_value" where
  "numeric_affinity db t =
     (if \<not> numeric_text t then SqlText t
      else (case integer_text t of
              Some i \<Rightarrow>
                if in_int64 i then SqlInteger i
                else (case real_as_integer db (text_to_real db t) of
                        Some j \<Rightarrow> SqlInteger j
                      | None \<Rightarrow> SqlReal (text_to_real db t))
            | None \<Rightarrow>
                (case real_as_integer db (text_to_real db t) of
                   Some j \<Rightarrow> SqlInteger j
                 | None \<Rightarrow> SqlReal (text_to_real db t))))"

section \<open>Database statements\<close>

text \<open>
  The id an \<open>AUTOINCREMENT\<close> column gives a new row: one more than the largest id the
  table holds or has ever held.
\<close>

definition next_rowid :: "int \<Rightarrow> int list \<Rightarrow> int" where
  "next_rowid seq ids = fold max ids seq + 1"

text \<open>
  \<open>SELECT ... WHERE id = ?\<close> with \<open>fetchone()\<close>: the id is bound, then the first
  row with that id is returned, or \<open>None\<close>.
\<close>

definition select_memory :: "'r store \<Rightarrow> int \<Rightarrow> error + 'r memory_row option" where
  "select_memory s memory_id =
     bind_result (sqlite_bind_int memory_id)
       (\<lambda>i. Inr (find (\<lambda>r. mem_id r = i) (memory_tbl s)))"

definition select_appreciation :: "'r store \<Rightarrow> int \<Rightarrow> error + appreciation_row option" where
  "select_appreciation s note_id =
     bind_result (sqlite_bind_int note_id)
       (\<lambda>i. Inr (find (\<lambda>r. app_id r = i) (appreciation_tbl s)))"


definition update_memory ::
  "'r sqlite_reals \<Rightarrow> string \<Rightarrow> string \<Rightarrow> string \<Rightarrow> string \<Rightarrow> string option \<Rightarrow> string \<Rightarrow> int
     \<Rightarrow> 'r store \<Rightarrow> 'r store" where
  "update_memory db title story latitude longitude photo_url date memory_id s =
     s\<lparr>memory_tbl :=
         map (\<lambda>r. if mem_id r = memory_id
                  then r\<lparr>mem_title := title, mem_story := story,
                         mem_latitude := real_affinity db latitude,
                         mem_longitude := real_affinity db longitude,
                         mem_photo_url := photo_url,
                         mem_date := numeric_affinity db date\<rparr>
                  else r)
           (memory_tbl s)\<rparr>"


definition insert_appreciation :: "string \<Rightarrow> int \<Rightarrow> int \<Rightarrow> 'r store \<Rightarrow> 'r store" where
  "insert_appreciation text author_id recipient_id s =
     (let new_id = next_rowid (appreciation_seq s) (map app_id (appreciation_tbl s)) in
      s\<lparr>appreciation_tbl := appreciation_tbl s @
           [\<lparr>app_id = new_id, app_text = text, app_author_id = author_id,
             app_recipient_id = recipient_id\<rparr>],
        appreciation_seq := new_id\<rparr>)"

definition update_appreciation :: "string \<Rightarrow> int \<Rightarrow> 'r store \<Rightarrow> 'r store" where
  "update_appreciation new_text note_id s =
     s\<lparr>appreciation_tbl :=
         map (\<lambda>r. if app_id r = note_id then r\<lparr>app_text := new_text\<rparr> else r)
           (appreciation_tbl s)\<rparr>"


text \<open>
  The listing of \<open>appreciation\<close>: every note joined with the user rows of its author,
  newest id first.
\<close>

definition appreciation_listing :: "'r store \<Rightarrow> (int \<times> string \<times> string) list" where
  "appreciation_listing s =
     concat (map (\<lambda>a. map (\<lambda>u. (app_id a, app_text a, usr_username u))
                        (filter (\<lambda>u. app_author_id a = usr_id u) (user_tbl s)))
               (rev (sort_key app_id (appreciation_tbl s))))"

section \<open>Routes\<close>

text \<open>
  Every handler takes \<open>current_user\<close> as an argument: \<open>None\<close> is the anonymous
  caller, whom \<open>login_required\<close> sends to the login view before the handler runs.
\<close>

definition load_user :: "'r store \<Rightarrow> int \<Rightarrow> user option" where
  "load_user s user_id =
     (case find (\<lambda>r. usr_id r = user_id) (user_tbl s) of
        Some user_row \<Rightarrow> Some \<lparr>cur_id = usr_id user_row, cur_username = usr_username user_row\<rparr>
      | None \<Rightarrow> None)"

text \<open>
  \<open>login\<close> returns the response and the session's user after the request.
  \<open>check_password_hash\<close> belongs to Werkzeug and is a parameter.
\<close>

definition login ::
  "(string \<Rightarrow> string \<Rightarrow> bool) \<Rightarrow> user option \<Rightarrow> request \<Rightarrow> 'r store
     \<Rightarrow> error + ('r response \<times> user option)" where
  "login check_password_hash current_user req s =
     (if current_user \<noteq> None then Inr (Redirect ''home'', current_user)
      else if req_method req = POST
      then bind_result (form_get req ''username'') (\<lambda>username.
           bind_result (form_get req ''password'') (\<lambda>password.
             (case find (\<lambda>r. usr_username r = username) (user_tbl s) of
                Some user_row \<Rightarrow>
                  if check_password_hash (usr_password_hash user_row) password
                  then (case load_user s (usr_id user_row) of
                          Some u \<Rightarrow> Inr (Redirect ''home'', Some u)
                        | None \<Rightarrow> Inl AttributeError)
                  else Inr (Render (LoginPage (Some ''Invalid credentials'')), current_user)
              | None \<Rightarrow> Inr (Render (LoginPage (Some ''Invalid credentials'')), current_user))))
      else Inr (Render (LoginPage None), current_user))"


definition edit_memory ::
  "(string \<Rightarrow> string) \<Rightarrow> 'r sqlite_reals \<Rightarrow> user option \<Rightarrow> int \<Rightarrow> request \<Rightarrow> 'r store
     \<Rightarrow> error + ('r response \<times> 'r store)" where
  "edit_memory secure_filename db current_user memory_id req s =
     (case current_user of
        None \<Rightarrow> Inr (Redirect ''login'', s)
      | Some u \<Rightarrow>
          bind_result (select_memory s memory_id) (\<lambda>memory.
            if memory = None \<or> mem_user_id (the memory) \<noteq> cur_id u
            then Inr (Redirect ''home'', s)
            else if req_method req = POST
            then bind_result (form_get req ''title'') (\<lambda>title.
                 bind_result (form_get req ''story'') (\<lambda>story.
                 bind_result (form_get req ''latitude'') (\<lambda>latitude.
                 bind_result (form_get req ''longitude'') (\<lambda>longitude.
                 bind_result (form_get req ''date'') (\<lambda>date.
                 bind_result (upload_logic secure_filename req (mem_photo_url (the memory)) s)
                   (\<lambda>(photo_url, s1).
                   Inr (Redirect ''home'',
                        update_memory db title story latitude longitude photo_url date
                          memory_id s1)))))))
            else Inr (Render (EditMemoryPage (the memory)), s)))"


definition appreciation ::
  "user option \<Rightarrow> request \<Rightarrow> 'r store \<Rightarrow> error + ('r response \<times> 'r store)" where
  "appreciation current_user req s =
     (case current_user of
        None \<Rightarrow> Inr (Redirect ''login'', s)
      | Some u \<Rightarrow>
          if req_method req = POST
          then bind_result (form_get req ''text'') (\<lambda>text.
                 (let author_id = cur_id u;
                      recipient_id = (if author_id = 2 then 1 else 2)
                  in Inr (Redirect ''appreciation'',
                          insert_appreciation text author_id recipient_id s)))
          else Inr (Render (AppreciationPage (appreciation_listing s)), s))"

definition edit_appreciation ::
  "user option \<Rightarrow> int \<Rightarrow> request \<Rightarrow> 'r store \<Rightarrow> error + ('r response \<times> 'r store)" where
  "edit_appreciation current_user note_id req s =
     (case current_user of
        None \<Rightarrow> Inr (Redirect ''login'', s)
      | Some u \<Rightarrow>
          bind_result (select_appreciation s note_id) (\<lambda>note.
            if note = None \<or> app_author_id (the note) \<noteq> cur_id u
            then Inr (Redirect ''appreciation'', s)
            else if req_method req = POST
            then bind_result (form_get req ''text'') (\<lambda>new_text.
                   Inr (Redirect ''appreciation'', update_appreciation new_text note_id s))
            else Inr (Render (EditAppreciationPage (the note)), s)))"


section \<open>The upload rule in the words of the specification\<close>

text \<open>
  The specification accepts an uploaded file when a filename is present and its
  extension, the characters after the last dot, is one of png, jpg, jpeg, gif, compared
  without regard to case. These two definitions say that, independently of
  \<open>allowed_file\<close>; a filename without a dot has no extension.
\<close>

definition extension_after_last_dot :: "string \<Rightarrow> string option" where
  "extension_after_last_dot filename =
     (if CHR ''.'' \<in> set filename
      then Some (rev (takeWhile (\<lambda>c. c \<noteq> CHR ''.'') (rev filename)))
      else None)"

definition spec_photo_accepted :: "string \<Rightarrow> bool" where
  "spec_photo_accepted filename =
     (filename \<noteq> [] \<and>
      (case extension_after_last_dot filename of
         None \<Rightarrow> False
       | Some ext \<Rightarrow> lower ext \<in> lower ` {''png'', ''jpg'', ''jpeg'', ''gif''}))"

section \<open>Facts about the statements\<close>

lemmas cell_typing =
  real_affinity_def numeric_affinity_def numeric_text_def integer_text_def skip_sign_def
  sqlite_isdigit_def sqlite_isspace_def digits_value_def in_int64_def

lemma bind_result_Inr [simp]: "bind_result (Inr v) f = f v"
  by (simp add: bind_result_def)

lemma bind_result_Inl [simp]: "bind_result (Inl e) f = Inl e"
  by (simp add: bind_result_def)

lemma form_get_Some: "req_form req k = Some v \<Longrightarrow> form_get req k = Inr v"
  by (simp add: form_get_def)







lemma find_after_update:
  assumes "\<And>r. f (g r) = f r"
  shows "find (\<lambda>r. f r = k) (map (\<lambda>r. if f r = k then g r else r) xs)
           = map_option g (find (\<lambda>r. f r = k) xs)"
  using assms by (induction xs) auto






lemma select_memory_in_range:
  "in_int64 memory_id
     \<Longrightarrow> select_memory s memory_id = Inr (find (\<lambda>r. mem_id r = memory_id) (memory_tbl s))"
  by (simp add: select_memory_def sqlite_bind_int_def)


lemma select_memory_returns:
  "select_memory s memory_id = Inr x
     \<Longrightarrow> in_int64 memory_id \<and> x = find (\<lambda>r. mem_id r = memory_id) (memory_tbl s)"
  by (auto simp: select_memory_def sqlite_bind_int_def split: if_splits)

lemma select_appreciation_in_range:
  "in_int64 note_id
     \<Longrightarrow> select_appreciation s note_id
           = Inr (find (\<lambda>r. app_id r = note_id) (appreciation_tbl s))"
  by (simp add: select_appreciation_def sqlite_bind_int_def)


lemma select_appreciation_returns:
  "select_appreciation s note_id = Inr x
     \<Longrightarrow> in_int64 note_id \<and> x = find (\<lambda>r. app_id r = note_id) (appreciation_tbl s)"
  by (auto simp: select_appreciation_def sqlite_bind_int_def split: if_splits)















section \<open>Facts about the upload helper\<close>

lemma extension_after_last_dot_iff:
  "extension_after_last_dot filename = Some ext
     \<longleftrightarrow> (\<exists>stem. filename = stem @ ''.'' @ ext \<and> CHR ''.'' \<notin> set ext)"
proof
  assume "extension_after_last_dot filename = Some ext"
  then have dot: "CHR ''.'' \<in> set filename"
    and ext: "ext = rev (takeWhile (\<lambda>c. c \<noteq> CHR ''.'') (rev filename))"
    by (auto simp: extension_after_last_dot_def split: if_splits)
  let ?P = "\<lambda>c. c \<noteq> CHR ''.''"
  have "dropWhile ?P (rev filename) \<noteq> []"
    using dot by (simp add: dropWhile_eq_Nil_conv)
  moreover have "\<not> ?P (hd (dropWhile ?P (rev filename)))"
    using calculation by (rule hd_dropWhile)
  ultimately obtain rest where rest: "dropWhile ?P (rev filename) = CHR ''.'' # rest"
    by (cases "dropWhile ?P (rev filename)") auto
  have "rev filename = takeWhile ?P (rev filename) @ dropWhile ?P (rev filename)"
    by simp
  then have "rev filename = rev ext @ CHR ''.'' # rest"
    using rest ext by simp
  then have "rev (rev filename) = rev (rev ext @ CHR ''.'' # rest)"
    by (rule arg_cong)
  then have "filename = rev rest @ ''.'' @ ext"
    by simp
  moreover have "CHR ''.'' \<notin> set ext"
    unfolding ext using set_takeWhileD by fastforce
  ultimately show "\<exists>stem. filename = stem @ ''.'' @ ext \<and> CHR ''.'' \<notin> set ext"
    by blast
next
  assume "\<exists>stem. filename = stem @ ''.'' @ ext \<and> CHR ''.'' \<notin> set ext"
  then obtain stem where fn: "filename = stem @ ''.'' @ ext" and ext: "CHR ''.'' \<notin> set ext"
    by blast
  have "takeWhile (\<lambda>c. c \<noteq> CHR ''.'') (rev ext @ CHR ''.'' # rev stem) = rev ext"
    using ext by (auto simp: takeWhile_append2 takeWhile_tail)
  then show "extension_after_last_dot filename = Some ext"
    by (simp add: extension_after_last_dot_def fn)
qed

lemma lower_allowed_extensions:
  "lower ` {''png'', ''jpg'', ''jpeg'', ''gif''} = ALLOWED_EXTENSIONS"
  by (simp add: lower_def lower_char_def ALLOWED_EXTENSIONS_def)

lemma spec_photo_accepted_allowed:
  "spec_photo_accepted filename =
     (filename \<noteq> [] \<and>
      (case extension_after_last_dot filename of
         None \<Rightarrow> False
       | Some ext \<Rightarrow> lower ext \<in> ALLOWED_EXTENSIONS))"
  by (simp only: spec_photo_accepted_def lower_allowed_extensions)

lemma rsplit1_with_separator:
  assumes "sep \<in> set s"
  shows "rsplit1 sep s =
           [rev (drop (Suc (length (takeWhile (\<lambda>c. c \<noteq> sep) (rev s)))) (rev s)),
            rev (takeWhile (\<lambda>c. c \<noteq> sep) (rev s))]"
proof -
  have "takeWhile (\<lambda>c. c \<noteq> sep) (rev s) \<noteq> rev s"
    using assms by (simp add: takeWhile_eq_all_conv)
  moreover have "takeWhile (\<lambda>c. c \<noteq> sep) (rev s) @ dropWhile (\<lambda>c. c \<noteq> sep) (rev s) = rev s"
    by simp
  ultimately have "length (takeWhile (\<lambda>c. c \<noteq> sep) (rev s)) \<noteq> length s"
    by (metis append_self_conv length_append length_rev add_cancel_right_right length_0_conv)
  then show ?thesis
    by (simp add: rsplit1_def Let_def)
qed

lemma allowed_file_meets_spec: "allowed_file filename = Inr (spec_photo_accepted filename)"
proof (cases "CHR ''.'' \<in> set filename")
  case True
  then have "filename \<noteq> []" by auto
  then show ?thesis
    using True
    by (simp add: allowed_file_def rsplit1_with_separator py_index_def
        spec_photo_accepted_allowed extension_after_last_dot_def)
next
  case False
  then show ?thesis
    by (simp add: allowed_file_def spec_photo_accepted_def extension_after_last_dot_def)
qed

lemma upload_logic_no_file:
  assumes "req_files req ''photo'' = None"
  shows "upload_logic sf req photo_url s = Inr (photo_url, s)"
  using assms by (simp add: upload_logic_def)

lemma upload_logic_rejected:
  assumes "req_files req ''photo'' = Some file" and "\<not> spec_photo_accepted (fs_filename file)"
  shows "upload_logic sf req photo_url s = Inr (photo_url, s)"
  using assms by (simp add: upload_logic_def allowed_file_meets_spec)




lemma upload_logic_without_valid_file:
  assumes "req_files req ''photo'' = None
           \<or> (\<exists>file. req_files req ''photo'' = Some file \<and> \<not> spec_photo_accepted (fs_filename file))"
  shows "upload_logic sf req photo_url s = Inr (photo_url, s)"
  using assms upload_logic_no_file upload_logic_rejected by blast

section \<open>Facts about the memory handlers\<close>



lemma edit_memory_post:
  assumes "select_memory s memory_id = Inr (Some m)" and "mem_user_id m = cur_id u"
    and "req_method req = POST"
    and "req_form req ''title'' = Some title" and "req_form req ''story'' = Some story"
    and "req_form req ''latitude'' = Some latitude"
    and "req_form req ''longitude'' = Some longitude"
    and "req_form req ''date'' = Some date"
  shows "edit_memory sf db (Some u) memory_id req s =
           bind_result (upload_logic sf req (mem_photo_url m) s) (\<lambda>(photo_url, s1).
             Inr (Redirect ''home'',
                  update_memory db title story latitude longitude photo_url date memory_id s1))"
  using assms by (simp add: edit_memory_def form_get_Some)



lemma select_memory_after_update:
  assumes "select_memory s memory_id = Inr found"
  shows "select_memory (update_memory db title story latitude longitude photo_url date memory_id s)
           memory_id
   = Inr (map_option (\<lambda>r. r\<lparr>mem_title := title, mem_story := story,
                               mem_latitude := real_affinity db latitude,
                               mem_longitude := real_affinity db longitude,
                               mem_photo_url := photo_url,
                               mem_date := numeric_affinity db date\<rparr>)
            found)"
proof -
  let ?g = "\<lambda>r. r\<lparr>mem_title := title, mem_story := story,
                    mem_latitude := real_affinity db latitude,
                    mem_longitude := real_affinity db longitude,
                    mem_photo_url := photo_url, mem_date := numeric_affinity db date\<rparr>"
  have range: "in_int64 memory_id"
    and found: "found = find (\<lambda>r. mem_id r = memory_id) (memory_tbl s)"
    using select_memory_returns [OF assms] by simp_all
  have "find (\<lambda>r. mem_id r = memory_id)
          (map (\<lambda>r. if mem_id r = memory_id then ?g r else r) (memory_tbl s))
        = map_option ?g (find (\<lambda>r. mem_id r = memory_id) (memory_tbl s))"
    by (rule find_after_update) simp
  then show ?thesis
    using range found by (simp add: select_memory_in_range update_memory_def)
qed

section \<open>Instances at concrete requests\<close>

text \<open>
  The theorems below hold for every reading of numbers as doubles. Where a theorem is
  instantiated at a concrete request, a double is written as the string it was read from:
  \<open>text_to_real\<close> is the identity and \<open>real_as_integer\<close> gives \<open>None\<close>. So
  \<open>SqlReal ''1.0''\<close> is the \<open>REAL\<close> that SQLite reads from the string \<open>1.0\<close>.
\<close>

section \<open>Ownership checks\<close>




section \<open>Deleting a row that is not there\<close>




section \<open>Login failures\<close>

text \<open>
  C9. Two failing login attempts by an anonymous caller, one with a username that the user
  table holds and a password that the hash check rejects, the other with a username that
  the table does not hold: both return the login page with the message
  \<open>Invalid credentials\<close> and leave the caller anonymous, so the two results are equal.
  The hash check is any function.
\<close>

theorem failed_logins_are_indistinguishable:
  assumes "req_method req_known = POST" and "req_method req_unknown = POST"
    and "req_form req_known ''username'' = Some known_name" and "req_form req_known ''password'' = Some wrong_pw"
    and "req_form req_unknown ''username'' = Some other_name" and "req_form req_unknown ''password'' = Some other_pw"
    and "find (\<lambda>r. usr_username r = known_name) (user_tbl s) = Some row"
    and "\<not> chk (usr_password_hash row) wrong_pw"
    and "find (\<lambda>r. usr_username r = other_name) (user_tbl s) = None"
  shows "login chk None req_known s = Inr (Render (LoginPage (Some ''Invalid credentials'')), None)
         \<and> login chk None req_unknown s = login chk None req_known s"
  using assms by (simp add: login_def form_get_Some)

theorem failed_logins_are_indistinguishable_witness:
  "(let s = \<lparr>user_tbl = [\<lparr>usr_id = 1, usr_username = ''You'', usr_password_hash = ''h1''\<rparr>,
                     \<lparr>usr_id = 2, usr_username = ''Friend'', usr_password_hash = ''h2''\<rparr>],
         memory_tbl = [], memory_seq = 0, appreciation_tbl = [], appreciation_seq = 0,
         uploads = Map.empty\<rparr>;
        wrong_password = \<lparr>req_method = POST,
         req_form = [''username'' \<mapsto> ''You'', ''password'' \<mapsto> ''guess''],
         req_files = Map.empty\<rparr>;
        unknown_name = \<lparr>req_method = POST,
         req_form = [''username'' \<mapsto> ''Nobody'', ''password'' \<mapsto> ''h1''],
         req_files = Map.empty\<rparr>
    in login (=) None wrong_password s
         = Inr (Render (LoginPage (Some ''Invalid credentials'')), None)
       \<and> login (=) None unknown_name s = login (=) None wrong_password s
       \<and> find (\<lambda>r. usr_username r = ''You'') (user_tbl s)
           = Some \<lparr>usr_id = 1, usr_username = ''You'', usr_password_hash = ''h1''\<rparr>
       \<and> find (\<lambda>r. usr_username r = ''Nobody'') (user_tbl s) = None)"
  using failed_logins_are_indistinguishable
    [where s = "\<lparr>user_tbl = [\<lparr>usr_id = 1, usr_username = ''You'', usr_password_hash = ''h1''\<rparr>,
                     \<lparr>usr_id = 2, usr_username = ''Friend'', usr_password_hash = ''h2''\<rparr>],
         memory_tbl = [], memory_seq = 0, appreciation_tbl = [], appreciation_seq = 0,
         uploads = Map.empty\<rparr>"
       and req_known = "\<lparr>req_method = POST,
         req_form = [''username'' \<mapsto> ''You'', ''password'' \<mapsto> ''guess''],
         req_files = Map.empty\<rparr>"
       and req_unknown = "\<lparr>req_method = POST,
         req_form = [''username'' \<mapsto> ''Nobody'', ''password'' \<mapsto> ''h1''],
         req_files = Map.empty\<rparr>"
       and known_name = "''You''" and wrong_pw = "''guess''"
       and other_name = "''Nobody''" and other_pw = "''h1''"
       and row = "\<lparr>usr_id = 1, usr_username = ''You'', usr_password_hash = ''h1''\<rparr>"
       and chk = "(=)"]
  by (simp add: Let_def)

section \<open>Editing an appreciation note\<close>

text \<open>
  C10. When the author of a note posts a new text for it, the handler redirects to the
  listing and the new state differs from the old one in the appreciation table only.
  The table keeps its length and order; a row with the given id has its text replaced and
  is otherwise the same row, and every other row is the same row. So the ids, authors and
  recipients of all rows are what they were, and a table in which every recipient differs
  from the author stays such a table.
\<close>

theorem edit_appreciation_changes_text_only:
  assumes "select_appreciation s note_id = Inr (Some n)"
    and "app_author_id n = cur_id u"
    and "req_method req = POST"
    and "req_form req ''text'' = Some new_text"
  shows "\<exists>tbl. edit_appreciation (Some u) note_id req s
                 = Inr (Redirect ''appreciation'', s\<lparr>appreciation_tbl := tbl\<rparr>)
           \<and> length tbl = length (appreciation_tbl s)
           \<and> (\<forall>i < length tbl.
                 tbl ! i = (if app_id (appreciation_tbl s ! i) = note_id
                            then (appreciation_tbl s ! i)\<lparr>app_text := new_text\<rparr>
                            else appreciation_tbl s ! i))
           \<and> map app_id tbl = map app_id (appreciation_tbl s)
           \<and> map app_author_id tbl = map app_author_id (appreciation_tbl s)
           \<and> map app_recipient_id tbl = map app_recipient_id (appreciation_tbl s)
           \<and> select_appreciation (s\<lparr>appreciation_tbl := tbl\<rparr>) note_id
               = Inr (Some (n\<lparr>app_text := new_text\<rparr>))
           \<and> ((\<forall>r \<in> set (appreciation_tbl s). app_recipient_id r \<noteq> app_author_id r)
                \<longrightarrow> (\<forall>r \<in> set tbl. app_recipient_id r \<noteq> app_author_id r))"
proof -
  let ?upd = "\<lambda>r. if app_id r = note_id then r\<lparr>app_text := new_text\<rparr> else r"
  let ?tbl = "map ?upd (appreciation_tbl s)"
  have range: "in_int64 note_id"
    and found: "find (\<lambda>r. app_id r = note_id) (appreciation_tbl s) = Some n"
    using select_appreciation_returns [OF assms(1)] by simp_all
  have result: "edit_appreciation (Some u) note_id req s
                  = Inr (Redirect ''appreciation'', s\<lparr>appreciation_tbl := ?tbl\<rparr>)"
    using assms
    by (simp add: edit_appreciation_def form_get_Some update_appreciation_def)
  have len: "length ?tbl = length (appreciation_tbl s)"
    by simp
  have rows: "\<forall>i < length ?tbl.
                ?tbl ! i = (if app_id (appreciation_tbl s ! i) = note_id
                            then (appreciation_tbl s ! i)\<lparr>app_text := new_text\<rparr>
                            else appreciation_tbl s ! i)"
    by simp
  have ids: "map app_id ?tbl = map app_id (appreciation_tbl s)"
    by (induction "appreciation_tbl s") auto
  have authors: "map app_author_id ?tbl = map app_author_id (appreciation_tbl s)"
    by (induction "appreciation_tbl s") auto
  have recipients: "map app_recipient_id ?tbl = map app_recipient_id (appreciation_tbl s)"
    by (induction "appreciation_tbl s") auto
  have "find (\<lambda>r. app_id r = note_id)
          (map (\<lambda>r. if app_id r = note_id then (\<lambda>r. r\<lparr>app_text := new_text\<rparr>) r else r)
             (appreciation_tbl s))
        = map_option (\<lambda>r. r\<lparr>app_text := new_text\<rparr>)
            (find (\<lambda>r. app_id r = note_id) (appreciation_tbl s))"
    by (rule find_after_update) simp
  then have reread: "select_appreciation (s\<lparr>appreciation_tbl := ?tbl\<rparr>) note_id
                       = Inr (Some (n\<lparr>app_text := new_text\<rparr>))"
    using range found by (simp add: select_appreciation_in_range)
  have inv: "(\<forall>r \<in> set (appreciation_tbl s). app_recipient_id r \<noteq> app_author_id r)
               \<longrightarrow> (\<forall>r \<in> set ?tbl. app_recipient_id r \<noteq> app_author_id r)"
    by auto
  show ?thesis
    using result len rows ids authors recipients reread inv
    by (intro exI [of _ ?tbl]) blast
qed

theorem edit_appreciation_changes_text_only_witness:
  "edit_appreciation (Some \<lparr>cur_id = 1, cur_username = ''You''\<rparr>) 1
     \<lparr>req_method = POST, req_form = [''text'' \<mapsto> ''many thanks''],
         req_files = Map.empty\<rparr>
     \<lparr>user_tbl = [], memory_tbl = [], memory_seq = 0,
         appreciation_tbl = [\<lparr>app_id = 1, app_text = ''thanks'', app_author_id = 1,
                               app_recipient_id = 2\<rparr>,
                             \<lparr>app_id = 2, app_text = ''welcome'', app_author_id = 2,
                               app_recipient_id = 1\<rparr>],
         appreciation_seq = 2, uploads = Map.empty\<rparr>
   = Inr (Redirect ''appreciation'',
        \<lparr>user_tbl = [], memory_tbl = [], memory_seq = 0,
         appreciation_tbl = [\<lparr>app_id = 1, app_text = ''many thanks'', app_author_id = 1,
                               app_recipient_id = 2\<rparr>,
                             \<lparr>app_id = 2, app_text = ''welcome'', app_author_id = 2,
                               app_recipient_id = 1\<rparr>],
         appreciation_seq = 2, uploads = Map.empty\<rparr>)"
  using edit_appreciation_changes_text_only
    [where s = "\<lparr>user_tbl = [], memory_tbl = [], memory_seq = 0,
         appreciation_tbl = [\<lparr>app_id = 1, app_text = ''thanks'', app_author_id = 1,
                               app_recipient_id = 2\<rparr>,
                             \<lparr>app_id = 2, app_text = ''welcome'', app_author_id = 2,
                               app_recipient_id = 1\<rparr>],
         appreciation_seq = 2, uploads = Map.empty\<rparr>"
       and u = "\<lparr>cur_id = 1, cur_username = ''You''\<rparr>"
       and req = "\<lparr>req_method = POST, req_form = [''text'' \<mapsto> ''many thanks''],
         req_files = Map.empty\<rparr>"
       and note_id = 1 and new_text = "''many thanks''"
       and n = "\<lparr>app_id = 1, app_text = ''thanks'', app_author_id = 1, app_recipient_id = 2\<rparr>"]
  by (simp add: select_appreciation_def sqlite_bind_int_def in_int64_def edit_appreciation_def
      form_get_def update_appreciation_def)

section \<open>Appreciation: the recipient of a new note\<close>

text \<open>
  C2. A note created through the \<open>appreciation\<close> route by the authenticated user 1 or
  2 is appended with that user as author and the other of the two users as recipient:
  the recipient differs from the author, it is 2 for author 1 and 1 for author 2.
\<close>

theorem appreciation_recipient_is_other_user:
  assumes "cur_id u = 1 \<or> cur_id u = 2"
    and "req_method req = POST"
    and "req_form req ''text'' = Some text"
  shows "\<exists>row. appreciation (Some u) req s =
             Inr (Redirect ''appreciation'',
                  s\<lparr>appreciation_tbl := appreciation_tbl s @ [row], appreciation_seq := app_id row\<rparr>)
           \<and> app_text row = text
           \<and> app_author_id row = cur_id u
           \<and> app_recipient_id row \<noteq> app_author_id row
           \<and> app_recipient_id row \<in> {1, 2}
           \<and> (cur_id u = 1 \<longrightarrow> app_recipient_id row = 2)
           \<and> (cur_id u = 2 \<longrightarrow> app_recipient_id row = 1)"
proof -
  let ?row = "\<lparr>app_id = next_rowid (appreciation_seq s) (map app_id (appreciation_tbl s)),
                app_text = text, app_author_id = cur_id u,
                app_recipient_id = (if cur_id u = 2 then 1 else 2)\<rparr>"
  have "appreciation (Some u) req s =
          Inr (Redirect ''appreciation'',
               s\<lparr>appreciation_tbl := appreciation_tbl s @ [?row], appreciation_seq := app_id ?row\<rparr>)"
    using assms(2,3)
    by (simp add: appreciation_def bind_result_def form_get_def insert_appreciation_def Let_def)
  moreover have "app_recipient_id ?row \<noteq> app_author_id ?row"
    using assms(1) by auto
  moreover have "app_recipient_id ?row \<in> {1, 2}"
    by simp
  ultimately show ?thesis
    using assms(1) by (intro exI [of _ ?row]) auto
qed

theorem appreciation_recipient_is_other_user_witness:
  "appreciation (Some \<lparr>cur_id = 1, cur_username = ''You''\<rparr>)
     \<lparr>req_method = POST, req_form = [''text'' \<mapsto> ''thanks''], req_files = Map.empty\<rparr>
     \<lparr>user_tbl = [], memory_tbl = [], memory_seq = 0, appreciation_tbl = [],
      appreciation_seq = 0, uploads = Map.empty\<rparr>
   = Inr (Redirect ''appreciation'',
          \<lparr>user_tbl = [], memory_tbl = [], memory_seq = 0,
           appreciation_tbl = [\<lparr>app_id = 1, app_text = ''thanks'', app_author_id = 1,
                                app_recipient_id = 2\<rparr>],
           appreciation_seq = 1, uploads = Map.empty\<rparr>)"
  using appreciation_recipient_is_other_user
    [of "\<lparr>cur_id = 1, cur_username = ''You''\<rparr>"
        "\<lparr>req_method = POST, req_form = [''text'' \<mapsto> ''thanks''], req_files = Map.empty\<rparr>"
        "''thanks''"
        "\<lparr>user_tbl = [], memory_tbl = [], memory_seq = 0, appreciation_tbl = [],
          appreciation_seq = 0, uploads = Map.empty\<rparr>"]
  by (simp add: appreciation_def bind_result_def form_get_def insert_appreciation_def
      next_rowid_def)

section \<open>Editing a memory without a new photo\<close>

text \<open>
  C6. The owner of a memory posts an update with all five form fields and without a new
  valid photo: no file part named \<open>photo\<close>, or one whose filename the upload rule does not
  accept. The handler redirects to \<open>home\<close>; only the memory table changes (no file is
  written). Reading the row back by its id gives the row as it was with title, story,
  latitude, longitude and date overwritten by the submitted values, as their columns store
  them; its \<open>photo_url\<close>, id and owner are what they were. Rows with another id are the
  same rows.
\<close>

theorem edit_memory_retains_photo_url:
  assumes "select_memory s memory_id = Inr (Some m)" and "mem_user_id m = cur_id u"
    and "req_method req = POST"
    and "req_form req ''title'' = Some title" and "req_form req ''story'' = Some story"
    and "req_form req ''latitude'' = Some latitude"
    and "req_form req ''longitude'' = Some longitude"
    and "req_form req ''date'' = Some date"
    and "req_files req ''photo'' = None
         \<or> (\<exists>file. req_files req ''photo'' = Some file \<and> \<not> spec_photo_accepted (fs_filename file))"
  shows "\<exists>tbl. edit_memory sf db (Some u) memory_id req s
                 = Inr (Redirect ''home'', s\<lparr>memory_tbl := tbl\<rparr>)
           \<and> select_memory (s\<lparr>memory_tbl := tbl\<rparr>) memory_id
               = Inr (Some (m\<lparr>mem_title := title, mem_story := story,
                              mem_latitude := real_affinity db latitude,
                              mem_longitude := real_affinity db longitude,
                              mem_date := numeric_affinity db date\<rparr>))
           \<and> map_sum id (map_option mem_photo_url)
                 (select_memory (s\<lparr>memory_tbl := tbl\<rparr>) memory_id)
               = Inr (Some (mem_photo_url m))
           \<and> length tbl = length (memory_tbl s)
           \<and> (\<forall>i < length tbl. mem_id (memory_tbl s ! i) \<noteq> memory_id
                 \<longrightarrow> tbl ! i = memory_tbl s ! i)"
proof -
  let ?s' = "update_memory db title story latitude longitude (mem_photo_url m) date memory_id s"
  have "upload_logic sf req (mem_photo_url m) s = Inr (mem_photo_url m, s)"
    using assms(9) by (rule upload_logic_without_valid_file)
  then have result: "edit_memory sf db (Some u) memory_id req s = Inr (Redirect ''home'', ?s')"
    using edit_memory_post [OF assms(1-8), of sf db] by simp
  have shape: "?s' = s\<lparr>memory_tbl := memory_tbl ?s'\<rparr>"
    by (simp add: update_memory_def)
  have reread: "select_memory ?s' memory_id
                  = Inr (Some (m\<lparr>mem_title := title, mem_story := story,
                                 mem_latitude := real_affinity db latitude,
                                 mem_longitude := real_affinity db longitude,
                                 mem_date := numeric_affinity db date\<rparr>))"
    using select_memory_after_update [OF assms(1)] by simp
  have len: "length (memory_tbl ?s') = length (memory_tbl s)"
    by (simp add: update_memory_def)
  have others: "\<forall>i < length (memory_tbl ?s'). mem_id (memory_tbl s ! i) \<noteq> memory_id
                  \<longrightarrow> memory_tbl ?s' ! i = memory_tbl s ! i"
    by (simp add: update_memory_def)
  have "edit_memory sf db (Some u) memory_id req s
          = Inr (Redirect ''home'', s\<lparr>memory_tbl := memory_tbl ?s'\<rparr>)
        \<and> select_memory (s\<lparr>memory_tbl := memory_tbl ?s'\<rparr>) memory_id
            = Inr (Some (m\<lparr>mem_title := title, mem_story := story,
                           mem_latitude := real_affinity db latitude,
                           mem_longitude := real_affinity db longitude,
                           mem_date := numeric_affinity db date\<rparr>))
        \<and> map_sum id (map_option mem_photo_url)
              (select_memory (s\<lparr>memory_tbl := memory_tbl ?s'\<rparr>) memory_id)
            = Inr (Some (mem_photo_url m))
        \<and> length (memory_tbl ?s') = length (memory_tbl s)
        \<and> (\<forall>i < length (memory_tbl ?s'). mem_id (memory_tbl s ! i) \<noteq> memory_id
              \<longrightarrow> memory_tbl ?s' ! i = memory_tbl s ! i)"
    using result reread len others shape by simp
  then show ?thesis
    by (rule exI [of _ "memory_tbl ?s'"])
qed

theorem edit_memory_retains_photo_url_witness:
  "edit_memory id \<lparr>text_to_real = id, real_as_integer = Map.empty\<rparr> (Some \<lparr>cur_id = 1, cur_username = ''You''\<rparr>) 1
     \<lparr>req_method = POST,
         req_form = [''title'' \<mapsto> ''Trip 2'', ''story'' \<mapsto> ''More fun'',
                     ''latitude'' \<mapsto> ''007'', ''longitude'' \<mapsto> ''east'',
                     ''date'' \<mapsto> ''20240202''],
         req_files = [''photo'' \<mapsto> \<lparr>fs_filename = [], fs_content = []\<rparr>]\<rparr>
     \<lparr>user_tbl = [],
         memory_tbl = [\<lparr>mem_id = 1, mem_title = ''Trip'', mem_story = ''Fun'',
         mem_latitude = SqlReal ''1.0'', mem_longitude = SqlReal ''2.0'',
         mem_photo_url = Some ''static/uploads/trip.jpg'',
         mem_date = SqlText ''2024-01-01'', mem_user_id = 1\<rparr>],
         memory_seq = 1, appreciation_tbl = [], appreciation_seq = 0, uploads = Map.empty\<rparr>
   = Inr (Redirect ''home'',
        \<lparr>user_tbl = [],
         memory_tbl = [\<lparr>mem_id = 1, mem_title = ''Trip 2'', mem_story = ''More fun'',
                         mem_latitude = SqlReal ''007'', mem_longitude = SqlText ''east'',
                         mem_photo_url = Some ''static/uploads/trip.jpg'',
                         mem_date = SqlInteger 20240202, mem_user_id = 1\<rparr>],
         memory_seq = 1, appreciation_tbl = [], appreciation_seq = 0, uploads = Map.empty\<rparr>)"
  using edit_memory_retains_photo_url
    [where s = "\<lparr>user_tbl = [],
         memory_tbl = [\<lparr>mem_id = 1, mem_title = ''Trip'', mem_story = ''Fun'',
         mem_latitude = SqlReal ''1.0'', mem_longitude = SqlReal ''2.0'',
         mem_photo_url = Some ''static/uploads/trip.jpg'',
         mem_date = SqlText ''2024-01-01'', mem_user_id = 1\<rparr>],
         memory_seq = 1, appreciation_tbl = [], appreciation_seq = 0, uploads = Map.empty\<rparr>"
       and u = "\<lparr>cur_id = 1, cur_username = ''You''\<rparr>"
       and req = "\<lparr>req_method = POST,
         req_form = [''title'' \<mapsto> ''Trip 2'', ''story'' \<mapsto> ''More fun'',
                     ''latitude'' \<mapsto> ''007'', ''longitude'' \<mapsto> ''east'',
                     ''date'' \<mapsto> ''20240202''],
         req_files = [''photo'' \<mapsto> \<lparr>fs_filename = [], fs_content = []\<rparr>]\<rparr>"
       and memory_id = 1 and sf = id and db = "\<lparr>text_to_real = id, real_as_integer = Map.empty\<rparr>"
       and m = "\<lparr>mem_id = 1, mem_title = ''Trip'', mem_story = ''Fun'',
         mem_latitude = SqlReal ''1.0'', mem_longitude = SqlReal ''2.0'',
         mem_photo_url = Some ''static/uploads/trip.jpg'',
         mem_date = SqlText ''2024-01-01'', mem_user_id = 1\<rparr>"
       and title = "''Trip 2''" and story = "''More fun''" and latitude = "''007''"
       and longitude = "''east''" and date = "''20240202''"]
  by (simp add: select_memory_def sqlite_bind_int_def edit_memory_def form_get_def
      upload_logic_def file_truthy_def update_memory_def cell_typing)

section \<open>Creating a memory and reading it back\<close>




section \<open>Which uploads are stored\<close>



section \<open>What the create handlers check\<close>




text \<open>
  C5, as the code has it. \<open>appreciation\<close> reads the form's text and checks nothing about
  it. A POST without a text field raises the bad-request error for the missing key and
  writes nothing. A POST with a text field, empty or not, appends a note with that text from
  the caller to the other user and redirects to the listing.
\<close>

theorem appreciation_fails_on_missing_text_only:
  assumes "req_method req = POST"
  shows "(req_form req ''text'' = None
          \<longrightarrow> appreciation (Some u) req s = Inl (BadRequestKeyError ''text''))
       \<and> (req_form req ''text'' = Some text
          \<longrightarrow> appreciation (Some u) req s
                = Inr (Redirect ''appreciation'',
                       s\<lparr>appreciation_tbl := appreciation_tbl s @
                           [\<lparr>app_id = next_rowid (appreciation_seq s)
                                        (map app_id (appreciation_tbl s)),
                             app_text = text, app_author_id = cur_id u,
                             app_recipient_id = (if cur_id u = 2 then 1 else 2)\<rparr>],
                         appreciation_seq := next_rowid (appreciation_seq s)
                                               (map app_id (appreciation_tbl s))\<rparr>))
       \<and> (req_form req ''text'' = Some []
          \<longrightarrow> appreciation (Some u) req s
                = Inr (Redirect ''appreciation'',
                       s\<lparr>appreciation_tbl := appreciation_tbl s @
                           [\<lparr>app_id = next_rowid (appreciation_seq s)
                                        (map app_id (appreciation_tbl s)),
                             app_text = [], app_author_id = cur_id u,
                             app_recipient_id = (if cur_id u = 2 then 1 else 2)\<rparr>],
                         appreciation_seq := next_rowid (appreciation_seq s)
                                               (map app_id (appreciation_tbl s))\<rparr>))"
  using assms
  by (simp add: appreciation_def form_get_def insert_appreciation_def Let_def)

theorem appreciation_fails_on_missing_text_only_witness:
  "appreciation (Some \<lparr>cur_id = 2, cur_username = ''Friend''\<rparr>)
     \<lparr>req_method = POST, req_form = Map.empty, req_files = Map.empty\<rparr>
     \<lparr>user_tbl = [], memory_tbl = [], memory_seq = 0, appreciation_tbl = [],
         appreciation_seq = 0, uploads = Map.empty\<rparr>
   = Inl (BadRequestKeyError ''text'')"
  using appreciation_fails_on_missing_text_only
    [where s = "\<lparr>user_tbl = [], memory_tbl = [], memory_seq = 0, appreciation_tbl = [],
         appreciation_seq = 0, uploads = Map.empty\<rparr>"
       and u = "\<lparr>cur_id = 2, cur_username = ''Friend''\<rparr>"
       and req = "\<lparr>req_method = POST, req_form = Map.empty, req_files = Map.empty\<rparr>"]
  by simp

text \<open>
  The claim as the specification states it fails: a POST whose text is the empty string
  raises nothing and inserts a note with empty text.
\<close>

theorem appreciation_accepts_empty_text:
  "appreciation (Some \<lparr>cur_id = 2, cur_username = ''Friend''\<rparr>)
     \<lparr>req_method = POST, req_form = [''text'' \<mapsto> []], req_files = Map.empty\<rparr>
     \<lparr>user_tbl = [], memory_tbl = [], memory_seq = 0, appreciation_tbl = [],
         appreciation_seq = 0, uploads = Map.empty\<rparr>
   = Inr (Redirect ''appreciation'',
        \<lparr>user_tbl = [], memory_tbl = [], memory_seq = 0,
         appreciation_tbl = [\<lparr>app_id = 1, app_text = [], app_author_id = 2,
                               app_recipient_id = 1\<rparr>],
         appreciation_seq = 1, uploads = Map.empty\<rparr>)"
  by (simp add: appreciation_def form_get_def insert_appreciation_def next_rowid_def)

end
